theory Spec2Isabelle
  imports Complex_Main "HOL-Library.Sublist"
begin

section \<open>The caching proxy (static/service-worker.js)\<close>

text \<open>
  The service worker is modelled by explicit state passing. The state is the browser's
  cache storage: an ordered list of named partitions (\<open>caches.keys()\<close> lists them in
  creation order, \<open>caches.match\<close> searches them in that order), each an association list
  from the URL of a GET request to the captured response. The outcome of the network
  \<open>fetch\<close> of the intercepted request is an input of every handler: the promise either
  rejects or resolves with a response. Matching is by URL only (the \<open>Vary\<close> header is not
  modelled), and storage operations themselves are taken not to throw.
\<close>

datatype 'a outcome = Rejected | Resolved 'a

record request =
  http_method :: string
  origin :: string
  pathname :: string
  search :: string
  mode :: string

record response =
  status :: nat
  rtype :: string
  headers :: "(string \<times> string) list"
  body :: string

type_synonym cache = "(string \<times> response) list"

type_synonym cache_storage = "(string \<times> cache) list"

definition SW_VERSION :: string where
  "SW_VERSION = ''bbs-pwa-v3''"

definition STATIC_CACHE :: string where
  "STATIC_CACHE = SW_VERSION @ ''-static''"

definition RUNTIME_CACHE :: string where
  "RUNTIME_CACHE = SW_VERSION @ ''-runtime''"

definition OFFLINE_URL :: string where
  "OFFLINE_URL = ''/offline''"

text \<open>The URL of a request, the key under which a cache holds its response.\<close>

definition request_url :: "request \<Rightarrow> string" where
  "request_url req = origin req @ pathname req @ search req"

text \<open>\<open>cache.match(request)\<close> and \<open>cache.put(request, response)\<close> on one partition.\<close>

definition cache_match :: "string \<Rightarrow> cache \<Rightarrow> response option" where
  "cache_match url c = map_of c url"

definition cache_put :: "string \<Rightarrow> response \<Rightarrow> cache \<Rightarrow> cache" where
  "cache_put url r c = filter (\<lambda>e. fst e \<noteq> url) c @ [(url, r)]"

text \<open>\<open>caches.keys()\<close>, \<open>caches.open(name)\<close> (which creates a missing partition),
  \<open>caches.delete(name)\<close> and \<open>caches.match(request)\<close> over all partitions.\<close>

definition caches_keys :: "cache_storage \<Rightarrow> string list" where
  "caches_keys cs = map fst cs"

definition caches_open :: "string \<Rightarrow> cache_storage \<Rightarrow> cache_storage" where
  "caches_open name cs = (if name \<in> set (caches_keys cs) then cs else cs @ [(name, [])])"

definition caches_delete :: "string \<Rightarrow> cache_storage \<Rightarrow> cache_storage" where
  "caches_delete name cs = filter (\<lambda>e. fst e \<noteq> name) cs"

fun caches_match :: "string \<Rightarrow> cache_storage \<Rightarrow> response option" where
  "caches_match url [] = None"
| "caches_match url (e # cs) =
     (case cache_match url (snd e) of
        Some r \<Rightarrow> Some r
      | None \<Rightarrow> caches_match url cs)"

text \<open>The entry a named partition holds for a URL; a partition that does not exist holds
  none. Reading and writing through a handle obtained from \<open>caches.open\<close>.\<close>

definition partition_match :: "string \<Rightarrow> string \<Rightarrow> cache_storage \<Rightarrow> response option" where
  "partition_match name url cs =
     (case map_of cs name of None \<Rightarrow> None | Some c \<Rightarrow> cache_match url c)"

definition partition_put :: "string \<Rightarrow> string \<Rightarrow> response \<Rightarrow> cache_storage \<Rightarrow> cache_storage" where
  "partition_put name url r cs =
     map (\<lambda>e. if fst e = name then (fst e, cache_put url r (snd e)) else e) cs"

text \<open>The activate listener: every partition that is neither the static nor the runtime
  partition of the current version is deleted, one \<open>caches.delete\<close> per name.\<close>

definition activate :: "cache_storage \<Rightarrow> cache_storage" where
  "activate cs =
     fold caches_delete
       (filter (\<lambda>cacheName. cacheName \<noteq> STATIC_CACHE \<and> cacheName \<noteq> RUNTIME_CACHE)
          (caches_keys cs))
       cs"

text \<open>\<open>Response.error()\<close>.\<close>

definition Response_error :: response where
  "Response_error = \<lparr>status = 0, rtype = ''error'', headers = [], body = ''''\<rparr>"

text \<open>\<open>cacheSuccessResponse\<close>: the response (possibly \<open>null\<close>, modelled by \<open>None\<close>) is handed
  back in every case; it is stored only when its status is 200 and its type is not
  \<open>error\<close>.\<close>

definition cacheSuccessResponse ::
  "string \<Rightarrow> request \<Rightarrow> response option \<Rightarrow> cache_storage \<Rightarrow> response option \<times> cache_storage" where
  "cacheSuccessResponse cacheName req resp cs =
     (case resp of
        None \<Rightarrow> (None, cs)
      | Some r \<Rightarrow>
          if status r \<noteq> 200 \<or> rtype r = ''error'' then (Some r, cs)
          else (Some r, partition_put cacheName (request_url req) r (caches_open cacheName cs)))"

text \<open>\<open>staleWhileRevalidate\<close>. The refresh runs in the background; the storage returned is
  the one after the refresh has settled.\<close>

definition staleWhileRevalidate ::
  "response outcome \<Rightarrow> request \<Rightarrow> cache_storage \<Rightarrow> response \<times> cache_storage" where
  "staleWhileRevalidate net req cs =
     (let cs1 = caches_open STATIC_CACHE cs;
          cachedResponse = partition_match STATIC_CACHE (request_url req) cs1;
          networkPromise =
            (case net of
               Resolved r \<Rightarrow> cacheSuccessResponse STATIC_CACHE req (Some r) cs1
             | Rejected \<Rightarrow> (None, cs1))
      in case cachedResponse of
           Some c \<Rightarrow> (c, snd networkPromise)
         | None \<Rightarrow>
             (case fst networkPromise of
                Some r \<Rightarrow> (r, snd networkPromise)
              | None \<Rightarrow> (Response_error, snd networkPromise)))"

text \<open>\<open>networkFirst\<close>. Its last fallback, \<open>caches.match(OFFLINE_URL)\<close>, may find nothing: the
  handler then resolves with \<open>undefined\<close>, modelled by \<open>None\<close>. The first argument is
  \<open>self.location.origin\<close>, against which the relative URLs are resolved.\<close>

definition networkFirst ::
  "string \<Rightarrow> response outcome \<Rightarrow> request \<Rightarrow> cache_storage \<Rightarrow> response option \<times> cache_storage" where
  "networkFirst loc net req cs =
     (case net of
        Resolved networkResponse \<Rightarrow> cacheSuccessResponse RUNTIME_CACHE req (Some networkResponse) cs
      | Rejected \<Rightarrow>
          (let cs1 = caches_open RUNTIME_CACHE cs in
           case partition_match RUNTIME_CACHE (request_url req) cs1 of
             Some cachedResponse \<Rightarrow> (Some cachedResponse, cs1)
           | None \<Rightarrow> (caches_match (loc @ OFFLINE_URL) cs1, cs1)))"

text \<open>\<open>navigationHandler\<close>.\<close>

definition navigationHandler ::
  "string \<Rightarrow> response outcome \<Rightarrow> request \<Rightarrow> cache_storage \<Rightarrow> response \<times> cache_storage" where
  "navigationHandler loc net req cs =
     (case net of
        Resolved networkResponse \<Rightarrow>
          (networkResponse, snd (cacheSuccessResponse RUNTIME_CACHE req (Some networkResponse) cs))
      | Rejected \<Rightarrow>
          (case caches_match (request_url req) cs of
             Some cachedPage \<Rightarrow> (cachedPage, cs)
           | None \<Rightarrow>
               (case caches_match (loc @ ''/'') cs of
                  Some homeFromCache \<Rightarrow> (homeFromCache, cs)
                | None \<Rightarrow>
                    (case caches_match (loc @ OFFLINE_URL) cs of
                       Some offlinePage \<Rightarrow> (offlinePage, cs)
                     | None \<Rightarrow> (Response_error, cs)))))"

text \<open>\<open>JSON.stringify\<close> of a string: the quoted string with the escapes of the JSON
  grammar (strings are taken over 8-bit characters).\<close>

definition hex_digit :: "nat \<Rightarrow> char" where
  "hex_digit n = ''0123456789abcdef'' ! (n mod 16)"

definition json_escape_char :: "char \<Rightarrow> string" where
  "json_escape_char c =
     (if c = CHR 0x22 then [CHR 0x5C, CHR 0x22]
      else if c = CHR 0x5C then [CHR 0x5C, CHR 0x5C]
      else if c = CHR 0x08 then [CHR 0x5C, CHR ''b'']
      else if c = CHR 0x0C then [CHR 0x5C, CHR ''f'']
      else if c = CHR 0x0A then [CHR 0x5C, CHR ''n'']
      else if c = CHR 0x0D then [CHR 0x5C, CHR ''r'']
      else if c = CHR 0x09 then [CHR 0x5C, CHR ''t'']
      else if (of_char c :: nat) < 32
        then [CHR 0x5C, CHR ''u'', CHR ''0'', CHR ''0'',
              hex_digit ((of_char c :: nat) div 16), hex_digit (of_char c :: nat)]
      else [c])"

definition JSON_quote :: "string \<Rightarrow> string" where
  "JSON_quote s = [CHR 0x22] @ concat (map json_escape_char s) @ [CHR 0x22]"

text \<open>\<open>offlineJsonResponse\<close>: status 503, a JSON content type, and the body
  \<open>JSON.stringify({ success: false, message })\<close>.\<close>

definition offlineJsonResponse :: "string \<Rightarrow> response" where
  "offlineJsonResponse message =
     \<lparr>status = 503, rtype = ''default'',
      headers = [(''Content-Type'', ''application/json'')],
      body = ''{'' @ JSON_quote ''success'' @ '':false,'' @ JSON_quote ''message'' @ '':''
               @ JSON_quote message @ ''}''\<rparr>"

text \<open>The fetch listener. \<open>None\<close>: the listener returns without \<open>respondWith\<close> and the
  browser handles the request itself. Otherwise the response the page receives (\<open>None\<close>
  when the handler resolves with \<open>undefined\<close>) and the cache storage afterwards. The first
  argument is \<open>self.location.origin\<close>, the second the outcome of \<open>fetch(request)\<close>.\<close>

definition fetch_listener ::
  "string \<Rightarrow> response outcome \<Rightarrow> request \<Rightarrow> cache_storage
     \<Rightarrow> (response option \<times> cache_storage) option" where
  "fetch_listener loc net req cs =
     (if http_method req \<noteq> ''GET'' then None
      else if origin req \<noteq> loc then None
      else if mode req = ''navigate''
        then Some (map_prod Some id (navigationHandler loc net req cs))
      else if prefix ''/api/'' (pathname req)
        then Some (Some (case net of
                           Resolved r \<Rightarrow> r
                         | Rejected \<Rightarrow> offlineJsonResponse ''You are offline right now.''),
                   cs)
      else if prefix ''/static/'' (pathname req) \<or> pathname req = ''/manifest.webmanifest''
        then Some (map_prod Some id (staleWhileRevalidate net req cs))
      else Some (networkFirst loc net req cs))"

section \<open>The point-of-sale client (static/script.js)\<close>

subsection \<open>HTML escaping\<close>

text \<open>\<open>s.replace(/c/g, rep)\<close> for a pattern that is one literal character and a replacement
  without \<open>$\<close>: every occurrence of the character is replaced, left to right.\<close>

definition replace_all :: "char \<Rightarrow> string \<Rightarrow> string \<Rightarrow> string" where
  "replace_all c rep s = concat (map (\<lambda>x. if x = c then rep else [x]) s)"

text \<open>\<open>escapeHtml\<close>. The argument is the value after \<open>value ?? ''\<close> and \<open>String\<close>: \<open>None\<close> stands
  for \<open>null\<close> and \<open>undefined\<close>, \<open>Some s\<close> for a value whose string form is \<open>s\<close>. The five
  replacements run one after the other over the whole string, as in the source.\<close>

definition escapeHtml :: "string option \<Rightarrow> string" where
  "escapeHtml v =
     replace_all (CHR 0x27) ''&#39;''
       (replace_all (CHR 0x22) ''&quot;''
          (replace_all (CHR ''>'') ''&gt;''
             (replace_all (CHR ''<'') ''&lt;''
                (replace_all (CHR ''&'') ''&amp;''
                   (case v of None \<Rightarrow> [] | Some s \<Rightarrow> s)))))"

definition html_entities :: "string list" where
  "html_entities = [''&amp;'', ''&lt;'', ''&gt;'', ''&quot;'', ''&#39;'']"

text \<open>What the five passes together do to one character of the input.\<close>

definition escape_char :: "char \<Rightarrow> string" where
  "escape_char c =
     (if c = CHR ''&'' then ''&amp;''
      else if c = CHR ''<'' then ''&lt;''
      else if c = CHR ''>'' then ''&gt;''
      else if c = CHR 0x22 then ''&quot;''
      else if c = CHR 0x27 then ''&#39;''
      else [c])"

text \<open>Every ampersand of a string starts one of the five entities.\<close>

fun ampersands_start_entities :: "string \<Rightarrow> bool" where
  "ampersands_start_entities [] = True"
| "ampersands_start_entities (c # cs) =
     ((if c = CHR ''&'' then list_ex (\<lambda>e. prefix e (c # cs)) html_entities else True)
      \<and> ampersands_start_entities cs)"

subsection \<open>The client state\<close>

text \<open>
  The client is the single \<open>POSSystem\<close> object together with the parts of the browser it
  reads and writes: the two local-storage keys, the notifications shown, the catalog
  status line, the product grid, the loader, and the log of the requests issued to the
  server. Each \<open>async\<close> method is a function of the state and of the outcome of the
  requests it awaits. Values that come from JSON are typed by the contract of the
  endpoint; numbers that are counts are integers; the amounts of a product or a cart line
  are the decimal numbers of the JSON text, and the checkout computes with the doubles
  nearest to them. The rest of the page (the title,
  the modals, the cart view that \<open>renderCart\<close> draws, the badge that \<open>updateCartCount\<close>
  sets) and the fields \<open>categories\<close> and \<open>lastOrder\<close> are left out; the elements the code
  looks up are taken to exist. The field \<open>name\<close> of a cart line is \<open>item_name\<close> here.
\<close>

record product =
  ID :: string
  Name :: string
  Category :: string
  Price :: rat
  Stock :: int
  Description :: string

record cart_item =
  product_id :: string
  item_name :: string
  unit_price :: rat
  quantity :: int
  total_price :: rat

text \<open>A request sent with \<open>fetch\<close>: the path with the query parameters in the order of the
  \<open>URLSearchParams\<close> object, or the path with the fields of the JSON body. A field of the
  body is a string, a whole number or, for the amounts of the checkout, a JavaScript
  number (the subsection on numbers below says how these are modelled).\<close>

datatype jsnum = Finite rat | PosInf | NegInf | NaN

datatype body_value = Str string | Num int | Amount jsnum

datatype api_call =
    GET string "(string \<times> string) list"
  | POST string "(string \<times> body_value) list"

text \<open>The reply to a request: \<open>response.ok\<close> and the value of \<open>response.json()\<close>, \<open>None\<close> when
  the body does not decode to an object.\<close>

record 'a http_reply =
  ok :: bool
  json :: "'a option"

text \<open>The payload of \<open>/api/products/lazy\<close>. \<open>items\<close> is \<open>None\<close> when \<open>payload.items\<close> is not an
  array; \<open>total\<close> is \<open>None\<close> when the field is missing or \<open>null\<close>; \<open>has_more\<close> is the truth value
  \<open>Boolean(payload.has_more)\<close>.\<close>

record lazy_payload =
  items :: "product list option"
  total :: "int option"
  has_more :: bool

text \<open>The result of a cart mutation. \<open>success\<close> is the truth value of \<open>result.success\<close>;
  \<open>result_cart\<close> is \<open>None\<close> when \<open>result.cart\<close> is not an array.\<close>

record mutation_result =
  success :: bool
  result_cart :: "cart_item list option"
  result_message :: "string option"

record pos_state =
  cart :: "cart_item list"
  products :: "product list"
  catalogTotalCount :: int
  currentQuery :: string
  currentCategory :: string
  nextOffset :: nat
  hasMoreProducts :: bool
  isFetchingProducts :: bool
  productPageSize :: nat
  stored_products :: "product list option"
  stored_cart :: "cart_item list option"
  pendingSnapshots :: nat
  fetched :: "api_call list"
  notifications :: "(string \<times> string) list"
  loadStatus :: "string \<times> string"
  grid :: "product list"
  loading :: bool

text \<open>\<open>stored_products\<close> and \<open>stored_cart\<close> are the local-storage keys \<open>cached_products\<close> and
  \<open>cart\<close>: \<open>None\<close> when the key is absent, otherwise the list whose JSON text the client
  wrote there. \<open>pendingSnapshots\<close> counts the snapshot writes that \<open>persistProductsToCache\<close>
  has scheduled and that have not run yet.\<close>

text \<open>\<open>String(n)\<close> for a natural number and for an integer.\<close>

definition digit_char :: "nat \<Rightarrow> char" where
  "digit_char n = ''0123456789'' ! (n mod 10)"

fun decimal :: "nat \<Rightarrow> string" where
  "decimal n = (if 10 \<le> n then decimal (n div 10) @ [digit_char n] else [digit_char n])"

declare decimal.simps [simp del]

definition string_of_int :: "int \<Rightarrow> string" where
  "string_of_int i = (if i < 0 then ''-'' @ decimal (nat (- i)) else decimal (nat i))"

text \<open>\<open>String.prototype.trim\<close> on 8-bit strings.\<close>

definition is_space :: "char \<Rightarrow> bool" where
  "is_space c = (c \<in> set [CHR 0x09, CHR 0x0A, CHR 0x0B, CHR 0x0C, CHR 0x0D, CHR 0x20, CHR 0xA0])"

definition js_trim :: "string \<Rightarrow> string" where
  "js_trim s = rev (dropWhile is_space (rev (dropWhile is_space s)))"

text \<open>\<open>getProductPageSize\<close>, from \<open>window.innerWidth\<close>.\<close>

definition getProductPageSize :: "nat \<Rightarrow> nat" where
  "getProductPageSize width =
     (if width \<le> 460 then 8
      else if width \<le> 760 then 12
      else if width \<le> 1180 then 16
      else 24)"

text \<open>The state the constructor sets up, before \<open>init\<close> runs, in a browser whose window is
  \<open>width\<close> pixels wide and whose local storage holds nothing.\<close>

definition new_POSSystem :: "nat \<Rightarrow> pos_state" where
  "new_POSSystem width =
     \<lparr>cart = [], products = [], catalogTotalCount = 0, currentQuery = [],
      currentCategory = ''all'', nextOffset = 0, hasMoreProducts = True,
      isFetchingProducts = False, productPageSize = getProductPageSize width,
      stored_products = None, stored_cart = None, pendingSnapshots = 0, fetched = [],
      notifications = [], loadStatus = ([], []), grid = [], loading = False\<rparr>"

definition showNotification :: "string \<Rightarrow> string \<Rightarrow> pos_state \<Rightarrow> pos_state" where
  "showNotification msg type s = s\<lparr>notifications := notifications s @ [(msg, type)]\<rparr>"

definition setProductsLoadStatus :: "string \<Rightarrow> string \<Rightarrow> pos_state \<Rightarrow> pos_state" where
  "setProductsLoadStatus msg state s =
     s\<lparr>loadStatus := (if msg = [] then ([], []) else (msg, state))\<rparr>"

definition showLoading :: "bool \<Rightarrow> pos_state \<Rightarrow> pos_state" where
  "showLoading show s = s\<lparr>loading := show\<rparr>"

definition renderProducts :: "product list \<Rightarrow> bool \<Rightarrow> pos_state \<Rightarrow> pos_state" where
  "renderProducts ps reset s = s\<lparr>grid := (if reset then ps else grid s @ ps)\<rparr>"

text \<open>\<open>persistProductsToCache\<close> only schedules the write; \<open>saveSnapshot\<close> is the scheduled
  callback, which stores the product list as it is when the callback runs.\<close>

definition persistProductsToCache :: "pos_state \<Rightarrow> pos_state" where
  "persistProductsToCache s = s\<lparr>pendingSnapshots := pendingSnapshots s + 1\<rparr>"

definition saveSnapshot :: "pos_state \<Rightarrow> pos_state" where
  "saveSnapshot s =
     (if pendingSnapshots s = 0 then s
      else s\<lparr>stored_products := Some (products s), pendingSnapshots := pendingSnapshots s - 1\<rparr>)"

subsection \<open>Loading the catalog\<close>

text \<open>The \<open>URLSearchParams\<close> of the catalog request: the cursor, then the trimmed query when
  it is not empty, then the category when one is selected.\<close>

definition catalog_params :: "pos_state \<Rightarrow> (string \<times> string) list" where
  "catalog_params s =
     [(''offset'', decimal (nextOffset s)),
      (''limit'', decimal (productPageSize s))]
     @ (if js_trim (currentQuery s) \<noteq> []
        then [(''q'', js_trim (currentQuery s))] else [])
     @ (if currentCategory s \<noteq> [] \<and> currentCategory s \<noteq> ''all''
        then [(''category'', currentCategory s)] else [])"

text \<open>\<open>loadProducts\<close> up to its \<open>await fetch(...)\<close>: the two guards, the in-flight flag, the
  reset of the cursor, and the request. The result is the request now outstanding, or
  \<open>None\<close> when the call returned at a guard.\<close>

definition loadProducts_begin :: "bool \<Rightarrow> bool \<Rightarrow> pos_state \<Rightarrow> api_call option \<times> pos_state" where
  "loadProducts_begin reset silent s =
     (if isFetchingProducts s then (None, s)
      else if \<not> reset \<and> \<not> hasMoreProducts s then (None, s)
      else
        let s1 = s\<lparr>isFetchingProducts := True\<rparr>;
            s2 = (if \<not> silent then showLoading True s1 else s1);
            s3 = (if reset
                  then setProductsLoadStatus ''Loading products...'' ''loading''
                         (s2\<lparr>nextOffset := 0, hasMoreProducts := True, products := [], grid := []\<rparr>)
                  else setProductsLoadStatus ''Loading more products...'' ''loading'' s2);
            request = GET ''/api/products/lazy'' (catalog_params s3)
        in (Some request, s3\<lparr>fetched := fetched s3 @ [request]\<rparr>))"

text \<open>The \<open>try\<close> block after the reply has arrived and passed the checks.\<close>

definition loadProducts_success :: "bool \<Rightarrow> lazy_payload \<Rightarrow> product list \<Rightarrow> pos_state \<Rightarrow> pos_state" where
  "loadProducts_success reset payload incoming s =
     (let s1 = s\<lparr>catalogTotalCount := (case total payload of None \<Rightarrow> 0 | Some n \<Rightarrow> n),
                  hasMoreProducts := has_more payload,
                  nextOffset := nextOffset s + length incoming\<rparr>;
          s2 = s1\<lparr>products := (if reset then incoming else products s1 @ incoming)\<rparr>;
          s3 = persistProductsToCache (renderProducts incoming reset s2)
      in if hasMoreProducts s3
         then setProductsLoadStatus
                (''Showing '' @ decimal (length (products s3)) @ '' of ''
                   @ string_of_int (catalogTotalCount s3) @ '' products'') ''ready'' s3
         else if length (products s3) = 0
         then setProductsLoadStatus ''No products found'' ''empty'' s3
         else setProductsLoadStatus
                (''Loaded all '' @ decimal (length (products s3)) @ '' products'') ''done'' s3)"

text \<open>The \<open>catch\<close> block.\<close>

definition loadProducts_failure :: "bool \<Rightarrow> pos_state \<Rightarrow> pos_state" where
  "loadProducts_failure reset s =
     (if reset then
        (case stored_products s of
           Some cached \<Rightarrow>
             setProductsLoadStatus ''Loaded cached products (offline)'' ''warning''
               (renderProducts cached True
                  (s\<lparr>products := cached, catalogTotalCount := int (length cached),
                     hasMoreProducts := False\<rparr>))
         | None \<Rightarrow>
             setProductsLoadStatus ''Unable to load products'' ''error''
               (showNotification ''Failed to load products'' ''error'' s))
      else
        setProductsLoadStatus ''Could not load more products. Try search again.'' ''error''
          (s\<lparr>hasMoreProducts := False\<rparr>))"

text \<open>\<open>loadProducts\<close> from the moment the awaited fetch settles: the reply is rejected by
  the checks (and the \<open>catch\<close> block runs) when the fetch rejects, when the body does not
  decode, when the status is not a success, or when \<open>items\<close> is not an array; the
  \<open>finally\<close> block clears the in-flight flag.\<close>

definition loadProducts_resume ::
  "bool \<Rightarrow> bool \<Rightarrow> lazy_payload http_reply outcome \<Rightarrow> pos_state \<Rightarrow> pos_state" where
  "loadProducts_resume reset silent reply s =
     (let s1 =
        (case reply of
           Rejected \<Rightarrow> loadProducts_failure reset s
         | Resolved response \<Rightarrow>
             (case json response of
                None \<Rightarrow> loadProducts_failure reset s
              | Some payload \<Rightarrow>
                  (case items payload of
                     None \<Rightarrow> loadProducts_failure reset s
                   | Some incoming \<Rightarrow>
                       if \<not> ok response then loadProducts_failure reset s
                       else loadProducts_success reset payload incoming s)));
          s2 = s1\<lparr>isFetchingProducts := False\<rparr>
      in if \<not> silent then showLoading False s2 else s2)"

text \<open>One call of \<open>loadProducts\<close> run to completion with nothing interleaved.\<close>

definition loadProducts ::
  "bool \<Rightarrow> bool \<Rightarrow> lazy_payload http_reply outcome \<Rightarrow> pos_state \<Rightarrow> pos_state" where
  "loadProducts reset silent reply s =
     (case loadProducts_begin reset silent s of
        (None, s') \<Rightarrow> s'
      | (Some request, s') \<Rightarrow> loadProducts_resume reset silent reply s')"

text \<open>A run of incremental loads, as the sentinel at the end of the grid triggers them
  (\<open>loadProducts({ reset: false, silent: true })\<close>), each run to completion before the
  next.\<close>

definition load_more :: "lazy_payload http_reply outcome list \<Rightarrow> pos_state \<Rightarrow> pos_state" where
  "load_more replies s = fold (loadProducts False True) replies s"

text \<open>A reply that passes the checks of \<open>loadProducts\<close>: a success status and a payload
  whose \<open>items\<close> is an array.\<close>

definition page_reply :: "product list \<Rightarrow> int option \<Rightarrow> bool \<Rightarrow> lazy_payload http_reply outcome" where
  "page_reply incoming t hm =
     Resolved \<lparr>ok = True, json = Some \<lparr>items = Some incoming, total = t, has_more = hm\<rparr>\<rparr>"

text \<open>A reply that fails them, for one of the four reasons.\<close>

definition load_failed :: "lazy_payload http_reply outcome \<Rightarrow> bool" where
  "load_failed reply =
     (case reply of
        Rejected \<Rightarrow> True
      | Resolved response \<Rightarrow>
          (case json response of
             None \<Rightarrow> True
           | Some payload \<Rightarrow> items payload = None \<or> \<not> ok response))"

text \<open>The replies of a run of successful loads, from the pages the server returns: the
  items, the declared total and the declared \<open>has_more\<close> of each.\<close>

definition page_replies ::
  "(product list \<times> int option \<times> bool) list \<Rightarrow> lazy_payload http_reply outcome list" where
  "page_replies pages = map (\<lambda>p. page_reply (fst p) (fst (snd p)) (snd (snd p))) pages"

subsection \<open>The cart\<close>

definition saveCartToStorage :: "pos_state \<Rightarrow> pos_state" where
  "saveCartToStorage s = s\<lparr>stored_cart := Some (cart s)\<rparr>"

text \<open>\<open>loadCart\<close>: the cart is replaced by the server's when the reply is a success; when the
  fetch rejects or the body does not decode, by the local-storage copy if there is one;
  otherwise it is left as it is.\<close>

definition loadCart :: "cart_item list http_reply outcome \<Rightarrow> pos_state \<Rightarrow> pos_state" where
  "loadCart reply s =
     (let s1 = s\<lparr>fetched := fetched s @ [GET ''/api/cart'' []]\<rparr>;
          fallback = (case stored_cart s1 of Some cached \<Rightarrow> s1\<lparr>cart := cached\<rparr> | None \<Rightarrow> s1)
      in case reply of
           Rejected \<Rightarrow> fallback
         | Resolved response \<Rightarrow>
             if ok response
             then (case json response of Some c \<Rightarrow> s1\<lparr>cart := c\<rparr> | None \<Rightarrow> fallback)
             else s1)"

text \<open>\<open>result.message || fallback\<close>.\<close>

definition message_or :: "string option \<Rightarrow> string \<Rightarrow> string" where
  "message_or m fallback = (case m of None \<Rightarrow> fallback | Some t \<Rightarrow> if t = [] then fallback else t)"

text \<open>The four cart mutations. Each takes the outcome of its own request and the outcome
  of the \<open>/api/cart\<close> request that \<open>loadCart\<close> would make; the second is consulted only
  where the source calls \<open>loadCart\<close>. \<open>qty\<close> is the quantity after the lookup of the
  quantity field of the product card.\<close>

definition addToCart ::
  "string \<Rightarrow> int \<Rightarrow> mutation_result http_reply outcome \<Rightarrow> cart_item list http_reply outcome
     \<Rightarrow> pos_state \<Rightarrow> pos_state" where
  "addToCart productId qty reply cart_reply s =
     (let s1 = s\<lparr>fetched := fetched s
                 @ [POST ''/api/cart/add'' [(''product_id'', Str productId), (''quantity'', Num qty)]]\<rparr>;
          failed = showNotification ''Failed to add product to cart'' ''error'' s1
      in case reply of
           Rejected \<Rightarrow> failed
         | Resolved response \<Rightarrow>
             (case json response of
                None \<Rightarrow> failed
              | Some result \<Rightarrow>
                  if success result then
                    showNotification (''Added '' @ string_of_int qty @ '' item(s) to cart!'') ''success''
                      (saveCartToStorage
                         (case result_cart result of
                            Some c \<Rightarrow> s1\<lparr>cart := c\<rparr>
                          | None \<Rightarrow> loadCart cart_reply s1))
                  else showNotification (case result_message result of None \<Rightarrow> [] | Some t \<Rightarrow> t)
                         ''error'' s1))"

definition removeFromCart ::
  "string \<Rightarrow> mutation_result http_reply outcome \<Rightarrow> cart_item list http_reply outcome
     \<Rightarrow> pos_state \<Rightarrow> pos_state" where
  "removeFromCart productId reply cart_reply s =
     (let s1 = s\<lparr>fetched := fetched s
                 @ [POST ''/api/cart/remove'' [(''product_id'', Str productId)]]\<rparr>;
          failed = showNotification ''Error removing item'' ''error'' s1
      in case reply of
           Rejected \<Rightarrow> failed
         | Resolved response \<Rightarrow>
             (case json response of
                None \<Rightarrow> failed
              | Some result \<Rightarrow>
                  if \<not> ok response \<or> \<not> success result then
                    showNotification (message_or (result_message result) ''Failed to remove item'')
                      ''error'' s1
                  else
                    showNotification ''Item removed from cart'' ''success''
                      (saveCartToStorage
                         (case result_cart result of
                            Some c \<Rightarrow> s1\<lparr>cart := c\<rparr>
                          | None \<Rightarrow> loadCart cart_reply s1))))"

definition updateCartQuantity ::
  "string \<Rightarrow> int \<Rightarrow> mutation_result http_reply outcome \<Rightarrow> cart_item list http_reply outcome
     \<Rightarrow> pos_state \<Rightarrow> pos_state" where
  "updateCartQuantity productId newQuantity reply cart_reply s =
     (if newQuantity \<le> 0 then removeFromCart productId reply cart_reply s
      else
        let s1 = s\<lparr>fetched := fetched s
                   @ [POST ''/api/cart/update''
                        [(''product_id'', Str productId), (''quantity'', Num newQuantity)]]\<rparr>;
            failed = showNotification ''Error updating cart'' ''error'' s1
        in case reply of
             Rejected \<Rightarrow> failed
           | Resolved response \<Rightarrow>
               (case json response of
                  None \<Rightarrow> failed
                | Some result \<Rightarrow>
                    if \<not> ok response \<or> \<not> success result then
                      showNotification (message_or (result_message result) ''Failed to update cart'')
                        ''error'' s1
                    else
                      saveCartToStorage
                        (case result_cart result of
                           Some c \<Rightarrow> s1\<lparr>cart := c\<rparr>
                         | None \<Rightarrow> loadCart cart_reply s1)))"

definition clearCart :: "mutation_result http_reply outcome \<Rightarrow> pos_state \<Rightarrow> pos_state" where
  "clearCart reply s =
     (let s1 = s\<lparr>fetched := fetched s @ [POST ''/api/cart/clear'' []]\<rparr>;
          failed = showNotification ''Error clearing cart'' ''error'' s1
      in case reply of
           Rejected \<Rightarrow> failed
         | Resolved response \<Rightarrow>
             (case json response of
                None \<Rightarrow> failed
              | Some result \<Rightarrow>
                  if \<not> ok response \<or> \<not> success result then
                    showNotification (message_or (result_message result) ''Failed to clear cart'')
                      ''error'' s1
                  else
                    showNotification ''Cart cleared'' ''success''
                      (saveCartToStorage
                         (s1\<lparr>cart := (case result_cart result of Some c \<Rightarrow> c | None \<Rightarrow> [])\<rparr>))))"

text \<open>A reply that reports success, with or without a cart, and a successful reply to the
  request for the cart.\<close>

definition success_reply ::
  "cart_item list option \<Rightarrow> string option \<Rightarrow> mutation_result http_reply outcome" where
  "success_reply c msg =
     Resolved \<lparr>ok = True, json = Some \<lparr>success = True, result_cart = c, result_message = msg\<rparr>\<rparr>"

definition cart_reply_of :: "cart_item list \<Rightarrow> cart_item list http_reply outcome" where
  "cart_reply_of c = Resolved \<lparr>ok = True, json = Some c\<rparr>"

subsection \<open>Numbers\<close>

text \<open>
  A JavaScript number is an IEEE 754 double: \<open>Finite x\<close> is the finite double whose exact
  value is \<open>x\<close> (negative zero is not told apart from zero: the code never divides by a
  total or takes its sign), the others are the two infinities and NaN. The result of an
  arithmetic operation is the exact result rounded to the nearest double, ties to the
  even significand.
\<close>

definition pow2 :: "int \<Rightarrow> rat" where
  "pow2 k = (if 0 \<le> k then 2 ^ nat k else 1 / 2 ^ nat (- k))"

fun bit_length :: "nat \<Rightarrow> nat" where
  "bit_length n = (if n = 0 then 0 else Suc (bit_length (n div 2)))"

declare bit_length.simps [simp del]

text \<open>The binary exponent of a positive number: the \<open>e\<close> with \<open>2^e \<le> x < 2^(e + 1)\<close>.\<close>

definition binary_exponent :: "rat \<Rightarrow> int" where
  "binary_exponent x =
     (if 1 \<le> x then int (bit_length (nat \<lfloor>x\<rfloor>)) - 1
      else - int (bit_length (nat (\<lceil>1 / x\<rceil> - 1))))"

definition round_half_even :: "rat \<Rightarrow> int" where
  "round_half_even q =
     (let f = \<lfloor>q\<rfloor>; d = q - of_int f
      in if d < 1 / 2 then f else if 1 / 2 < d then f + 1 else if even f then f else f + 1)"

text \<open>Rounding to a double: 53 significant bits, the exponent not below that of the
  subnormal numbers, and an infinity when the rounded value reaches \<open>2^1024\<close>.\<close>

definition round_double :: "rat \<Rightarrow> jsnum" where
  "round_double x =
     (if x = 0 then Finite 0
      else
        let e = max (binary_exponent \<bar>x\<bar>) (- 1022);
            ulp = pow2 (e - 52);
            y = of_int (round_half_even (x / ulp)) * ulp
        in if pow2 1024 \<le> y then PosInf
           else if y \<le> - pow2 1024 then NegInf
           else Finite y)"

definition fadd :: "jsnum \<Rightarrow> jsnum \<Rightarrow> jsnum" where
  "fadd a b =
     (case (a, b) of
        (NaN, _) \<Rightarrow> NaN
      | (_, NaN) \<Rightarrow> NaN
      | (PosInf, NegInf) \<Rightarrow> NaN
      | (NegInf, PosInf) \<Rightarrow> NaN
      | (PosInf, _) \<Rightarrow> PosInf
      | (_, PosInf) \<Rightarrow> PosInf
      | (NegInf, _) \<Rightarrow> NegInf
      | (_, NegInf) \<Rightarrow> NegInf
      | (Finite x, Finite y) \<Rightarrow> round_double (x + y))"

definition fneg :: "jsnum \<Rightarrow> jsnum" where
  "fneg a = (case a of Finite x \<Rightarrow> Finite (- x) | PosInf \<Rightarrow> NegInf | NegInf \<Rightarrow> PosInf | NaN \<Rightarrow> NaN)"

definition fsub :: "jsnum \<Rightarrow> jsnum \<Rightarrow> jsnum" where
  "fsub a b = fadd a (fneg b)"

text \<open>\<open>a < b\<close>, \<open>a >= b\<close>, \<open>Math.max(a, b)\<close> and \<open>Math.abs(a)\<close>; a comparison with NaN is false.\<close>

definition fless :: "jsnum \<Rightarrow> jsnum \<Rightarrow> bool" where
  "fless a b =
     (case (a, b) of
        (NaN, _) \<Rightarrow> False
      | (_, NaN) \<Rightarrow> False
      | (Finite x, Finite y) \<Rightarrow> x < y
      | (PosInf, _) \<Rightarrow> False
      | (_, NegInf) \<Rightarrow> False
      | (NegInf, _) \<Rightarrow> True
      | (_, PosInf) \<Rightarrow> True)"

definition fge :: "jsnum \<Rightarrow> jsnum \<Rightarrow> bool" where
  "fge a b = (a \<noteq> NaN \<and> b \<noteq> NaN \<and> \<not> fless a b)"

definition Math_max :: "jsnum \<Rightarrow> jsnum \<Rightarrow> jsnum" where
  "Math_max a b = (if a = NaN \<or> b = NaN then NaN else if fless a b then b else a)"

definition Math_abs :: "jsnum \<Rightarrow> jsnum" where
  "Math_abs a = (case a of Finite x \<Rightarrow> Finite \<bar>x\<bar> | PosInf \<Rightarrow> PosInf | NegInf \<Rightarrow> PosInf | NaN \<Rightarrow> NaN)"

text \<open>\<open>x || 0\<close> for a number: NaN and zero are falsy.\<close>

definition or_zero :: "jsnum \<Rightarrow> jsnum" where
  "or_zero x = (if x = NaN then Finite 0 else x)"

text \<open>The number a JSON or decimal literal denotes: the double nearest to it.\<close>

definition number_of :: "rat \<Rightarrow> jsnum" where
  "number_of q = round_double q"

text \<open>
  The text of a number on the page. \<open>Fixed2 neg n\<close> is what \<open>toFixed(2)\<close> prints for a finite
  number below \<open>10^21\<close>: a minus sign when \<open>neg\<close>, then \<open>n div 100\<close> in decimal, a point and
  the two digits of \<open>n mod 100\<close>. \<open>Plain x\<close> is the text \<open>String(x)\<close>, which \<open>toFixed\<close> returns for
  every other number. \<open>shown\<close> is the text itself where it is computed here; \<open>parseFloat\<close>
  reads the number back.
\<close>

datatype num_text = Fixed2 bool nat | Plain jsnum

definition toFixed2 :: "jsnum \<Rightarrow> num_text" where
  "toFixed2 x =
     (case x of
        Finite q \<Rightarrow>
          if 10 ^ 21 \<le> \<bar>q\<bar> then Plain x
          else Fixed2 (q < 0) (nat \<lfloor>\<bar>q\<bar> * 100 + 1 / 2\<rfloor>)
      | _ \<Rightarrow> Plain x)"



subsection \<open>Checkout\<close>









section \<open>Example data\<close>

text \<open>Concrete requests, cache contents, catalog pages and forms, on which the properties
  below are also evaluated.\<close>

subsection \<open>Requests and cache contents\<close>

definition page_response :: "string \<Rightarrow> response" where
  "page_response b = \<lparr>status = 200, rtype = ''basic'', headers = [], body = b\<rparr>"

definition shop_caches :: cache_storage where
  "shop_caches =
     [(''bbs-pwa-v3-static'',
         [(''https://shop/'', page_response ''home''),
          (''https://shop/offline'', page_response ''offline'')]),
      (''bbs-pwa-v3-runtime'',
         [(''https://shop/about'', page_response ''about'')])]"

definition about_navigation :: request where
  "about_navigation =
     \<lparr>http_method = ''GET'', origin = ''https://shop'', pathname = ''/about'',
      search = [], mode = ''navigate''\<rparr>"

definition cart_api_request :: "string \<Rightarrow> request" where
  "cart_api_request m =
     \<lparr>http_method = ''GET'', origin = ''https://shop'', pathname = ''/api/cart'',
      search = [], mode = m\<rparr>"

definition style_request :: request where
  "style_request =
     \<lparr>http_method = ''GET'', origin = ''https://shop'', pathname = ''/static/style.css'',
      search = [], mode = ''no-cors''\<rparr>"

definition not_found_response :: response where
  "not_found_response = \<lparr>status = 404, rtype = ''basic'', headers = [], body = ''gone''\<rparr>"

subsection \<open>Catalog pages, cart lines and checkout pages\<close>

definition sample_product :: "string \<Rightarrow> product" where
  "sample_product i =
     \<lparr>ID = i, Name = ''Rose serum'', Category = ''Serums'', Price = 12, Stock = 5,
      Description = []\<rparr>"

definition first_page :: "product list" where
  "first_page = map sample_product [''P01'', ''P02'', ''P03'', ''P04'', ''P05'', ''P06'', ''P07'', ''P08'']"

definition second_page :: "product list" where
  "second_page = map sample_product [''P09'', ''P10'', ''P11'', ''P12'', ''P13'', ''P14'', ''P15'', ''P16'']"

definition last_page :: "product list" where
  "last_page = map sample_product [''P17'', ''P18'', ''P19'']"

text \<open>Two full pages that announce more, and the same followed by a short last page.\<close>

definition two_pages :: "(product list \<times> int option \<times> bool) list" where
  "two_pages = [(first_page, Some 42, True), (second_page, Some 42, True)]"

definition three_pages :: "(product list \<times> int option \<times> bool) list" where
  "three_pages = two_pages @ [(last_page, Some 42, False)]"

text \<open>A phone-sized window (page size 8) just after the constructor, and the same client
  with a product snapshot in local storage.\<close>

definition phone :: pos_state where
  "phone = new_POSSystem 400"

definition phone_with_snapshot :: pos_state where
  "phone_with_snapshot = phone\<lparr>stored_products := Some first_page\<rparr>"

text \<open>The phone while its first, resetting load is outstanding.\<close>

definition phone_loading :: pos_state where
  "phone_loading = snd (loadProducts_begin True False phone)"

definition serum_line :: "int \<Rightarrow> cart_item" where
  "serum_line q =
     \<lparr>product_id = ''P01'', item_name = ''Rose serum'', unit_price = 12, quantity = q,
      total_price = 12 * of_int q\<rparr>"





section \<open>Cache versioning\<close>

lemma fold_caches_delete:
  "fold caches_delete names cs = filter (\<lambda>e. fst e \<notin> set names) cs"
proof (induction names arbitrary: cs)
  case Nil
  show ?case by simp
next
  case (Cons a names)
  have "fold caches_delete (a # names) cs = fold caches_delete names (caches_delete a cs)"
    by simp
  also have "\<dots> = filter (\<lambda>e. fst e \<notin> set names) (caches_delete a cs)"
    by (rule Cons.IH)
  also have "\<dots> = filter (\<lambda>e. fst e \<notin> set (a # names)) cs"
    by (simp add: caches_delete_def conj_commute)
  finally show ?case .
qed

lemma activate_filter:
  "activate cs = filter (\<lambda>e. fst e = STATIC_CACHE \<or> fst e = RUNTIME_CACHE) cs"
  unfolding activate_def fold_caches_delete
  by (rule filter_cong) (auto simp: caches_keys_def)

text \<open>
  Claim C6. After the activate step the cache storage is what it was with every
  partition removed whose name is neither the current static nor the current runtime
  partition name: those that remain are exactly the ones so named, in their former
  order and with all their entries, and under every other name none is found.
\<close>

theorem activate_keeps_exactly_current_partitions:
  "activate cs = filter (\<lambda>e. fst e = STATIC_CACHE \<or> fst e = RUNTIME_CACHE) cs
   \<and> caches_keys (activate cs) =
     filter (\<lambda>n. n = STATIC_CACHE \<or> n = RUNTIME_CACHE) (caches_keys cs)
   \<and> map_of (activate cs) STATIC_CACHE = map_of cs STATIC_CACHE
   \<and> map_of (activate cs) RUNTIME_CACHE = map_of cs RUNTIME_CACHE
   \<and> (n = STATIC_CACHE \<or> n = RUNTIME_CACHE \<or> map_of (activate cs) n = None)"
proof -
  have look: "map_of (filter (\<lambda>e. fst e = STATIC_CACHE \<or> fst e = RUNTIME_CACHE) cs) k
      = (if k = STATIC_CACHE \<or> k = RUNTIME_CACHE then map_of cs k else None)" for k
    by (induction cs) auto
  have keys: "caches_keys (filter (\<lambda>e. fst e = STATIC_CACHE \<or> fst e = RUNTIME_CACHE) cs)
      = filter (\<lambda>n. n = STATIC_CACHE \<or> n = RUNTIME_CACHE) (caches_keys cs)"
    by (simp add: caches_keys_def filter_map comp_def)
  show ?thesis
    using look [of STATIC_CACHE] look [of RUNTIME_CACHE] look [of n] keys
    by (auto simp: activate_filter)
qed

theorem activate_keeps_exactly_current_partitions_witness:
  "caches_keys (activate
      [(''bbs-pwa-v2-static'', [(''https://shop/'', Response_error)]),
       (''bbs-pwa-v3-static'', [(''https://shop/'', Response_error)]),
       (''other'', []),
       (''bbs-pwa-v3-runtime'', [])])
     = [''bbs-pwa-v3-static'', ''bbs-pwa-v3-runtime'']
   \<and> map_of (activate
      [(''bbs-pwa-v2-static'', [(''https://shop/'', Response_error)]),
       (''bbs-pwa-v3-static'', [(''https://shop/'', Response_error)]),
       (''other'', []),
       (''bbs-pwa-v3-runtime'', [])]) STATIC_CACHE
     = Some [(''https://shop/'', Response_error)]
   \<and> map_of (activate
      [(''bbs-pwa-v2-static'', [(''https://shop/'', Response_error)]),
       (''bbs-pwa-v3-static'', [(''https://shop/'', Response_error)]),
       (''other'', []),
       (''bbs-pwa-v3-runtime'', [])]) ''other'' = None"
  using activate_keeps_exactly_current_partitions
    [of "[(''bbs-pwa-v2-static'', [(''https://shop/'', Response_error)]),
       (''bbs-pwa-v3-static'', [(''https://shop/'', Response_error)]),
       (''other'', []),
       (''bbs-pwa-v3-runtime'', [])]" "''other''"]
  by (simp add: caches_keys_def STATIC_CACHE_def RUNTIME_CACHE_def SW_VERSION_def)

section \<open>Request routing and the fallback chains\<close>

lemmas fixtures =
  shop_caches_def about_navigation_def cart_api_request_def page_response_def
  request_url_def cache_match_def

text \<open>
  Claim C1. A same-origin GET request in navigation mode whose network fetch rejects is
  answered, with the cache storage left as it was, by the cached copy of the request
  itself when there is one; failing that by the cached copy of the site root; failing
  that by the cached offline page; and failing that by a synthetic network-error
  response.
\<close>

theorem navigation_fallback_order:
  assumes "http_method req = ''GET''" and "origin req = loc" and "mode req = ''navigate''"
  shows "(caches_match (request_url req) cs = Some cachedPage \<longrightarrow>
            fetch_listener loc Rejected req cs = Some (Some cachedPage, cs))
       \<and> (caches_match (request_url req) cs = None
            \<and> caches_match (loc @ ''/'') cs = Some homeFromCache \<longrightarrow>
            fetch_listener loc Rejected req cs = Some (Some homeFromCache, cs))
       \<and> (caches_match (request_url req) cs = None
            \<and> caches_match (loc @ ''/'') cs = None
            \<and> caches_match (loc @ ''/offline'') cs = Some offlinePage \<longrightarrow>
            fetch_listener loc Rejected req cs = Some (Some offlinePage, cs))
       \<and> (caches_match (request_url req) cs = None
            \<and> caches_match (loc @ ''/'') cs = None
            \<and> caches_match (loc @ ''/offline'') cs = None \<longrightarrow>
            fetch_listener loc Rejected req cs = Some (Some Response_error, cs))"
  using assms by (simp add: fetch_listener_def navigationHandler_def OFFLINE_URL_def)

text \<open>With the page, the root and the offline page all cached, the page is returned; the
  other three steps of the chain are reached by emptying the storage step by step.\<close>

theorem navigation_fallback_order_witness:
  "caches_match ''https://shop/about'' shop_caches = Some (page_response ''about'')
   \<and> caches_match ''https://shop/'' shop_caches = Some (page_response ''home'')
   \<and> caches_match ''https://shop/offline'' shop_caches = Some (page_response ''offline'')
   \<and> fetch_listener ''https://shop'' Rejected about_navigation shop_caches
        = Some (Some (page_response ''about''), shop_caches)
   \<and> fetch_listener ''https://shop'' Rejected about_navigation [hd shop_caches]
        = Some (Some (page_response ''home''), [hd shop_caches])
   \<and> fetch_listener ''https://shop'' Rejected about_navigation
        [(''bbs-pwa-v3-static'', [(''https://shop/offline'', page_response ''offline'')])]
        = Some (Some (page_response ''offline''),
                [(''bbs-pwa-v3-static'', [(''https://shop/offline'', page_response ''offline'')])])
   \<and> fetch_listener ''https://shop'' Rejected about_navigation []
        = Some (Some Response_error, [])"
  using
    navigation_fallback_order [of about_navigation "''https://shop''" shop_caches
      "page_response ''about''"]
    navigation_fallback_order [of about_navigation "''https://shop''" "[hd shop_caches]" _
      "page_response ''home''"]
    navigation_fallback_order [of about_navigation "''https://shop''"
      "[(''bbs-pwa-v3-static'', [(''https://shop/offline'', page_response ''offline'')])]" _ _
      "page_response ''offline''"]
    navigation_fallback_order [of about_navigation "''https://shop''" "[]"]
  by (simp add: fixtures)

text \<open>
  Claim C4, as amended. A same-origin GET request that is not a navigation and whose path
  starts with \<open>/api/\<close> is answered by the network response itself, and by the synthesized
  503 response with the JSON body below when the fetch rejects; in both cases the cache
  storage is neither read nor changed.
\<close>

theorem api_requests_bypass_the_cache:
  assumes "http_method req = ''GET''" and "origin req = loc" and "mode req \<noteq> ''navigate''"
    and "prefix ''/api/'' (pathname req)"
  shows \<open>fetch_listener loc (Resolved r) req cs = Some (Some r, cs)
       \<and> fetch_listener loc Rejected req cs =
           Some (Some \<lparr>status = 503, rtype = ''default'',
                       headers = [(''Content-Type'', ''application/json'')],
                       body = ''{"success":false,"message":"You are offline right now."}''\<rparr>,
                 cs)\<close>
  using assms
  by (simp add: fetch_listener_def offlineJsonResponse_def JSON_quote_def json_escape_char_def)

theorem api_requests_bypass_the_cache_witness:
  \<open>fetch_listener ''https://shop'' (Resolved (page_response ''[]'')) (cart_api_request ''cors'')
       shop_caches
      = Some (Some (page_response ''[]''), shop_caches)
   \<and> fetch_listener ''https://shop'' Rejected (cart_api_request ''cors'') shop_caches =
           Some (Some \<lparr>status = 503, rtype = ''default'',
                       headers = [(''Content-Type'', ''application/json'')],
                       body = ''{"success":false,"message":"You are offline right now."}''\<rparr>,
                 shop_caches)\<close>
  using api_requests_bypass_the_cache [of "cart_api_request ''cors''" "''https://shop''"
      "page_response ''[]''" shop_caches]
  by (simp add: cart_api_request_def)

text \<open>
  Claim C4 as stated fails for a navigation to an API path (the address bar pointed at
  \<open>/api/cart\<close>): the listener tests the navigation mode before the path, so the response is
  stored in the runtime partition, and served from there when the network is down.
\<close>

theorem api_navigation_is_cached_counterexample:
  \<open>fetch_listener ''https://shop'' (Resolved (page_response ''[]''))
       (cart_api_request ''navigate'') []
      = Some (Some (page_response ''[]''),
              [(''bbs-pwa-v3-runtime'', [(''https://shop/api/cart'', page_response ''[]'')])])
   \<and> fetch_listener ''https://shop'' Rejected (cart_api_request ''navigate'')
        [(''bbs-pwa-v3-runtime'', [(''https://shop/api/cart'', page_response ''[]'')])]
      = Some (Some (page_response ''[]''),
              [(''bbs-pwa-v3-runtime'', [(''https://shop/api/cart'', page_response ''[]'')])])\<close>
  by (simp add: fetch_listener_def navigationHandler_def cacheSuccessResponse_def
      cart_api_request_def page_response_def request_url_def caches_open_def caches_keys_def
      partition_put_def cache_put_def RUNTIME_CACHE_def SW_VERSION_def cache_match_def)

section \<open>What is written to the partitions\<close>

lemma map_of_caches_open:
  "map_of (caches_open n cs) name =
     (if name = n \<and> n \<notin> set (caches_keys cs) then Some [] else map_of cs name)"
proof (cases "n \<in> set (caches_keys cs)")
  case True
  then show ?thesis by (simp add: caches_open_def)
next
  case False
  then have "map_of cs n = None"
    by (simp add: caches_keys_def map_of_eq_None_iff)
  with False show ?thesis
    by (auto simp: caches_open_def map_add_def split: option.splits)
qed

lemma partition_match_caches_open:
  "partition_match name url (caches_open n cs) = partition_match name url cs"
proof (cases "n \<in> set (caches_keys cs)")
  case True
  then show ?thesis by (simp add: caches_open_def)
next
  case False
  then have "map_of cs n = None"
    by (simp add: caches_keys_def map_of_eq_None_iff)
  then show ?thesis
    by (simp add: partition_match_def map_of_caches_open cache_match_def)
qed

lemma cache_match_cache_put:
  "cache_match url (cache_put u r c) = (if url = u then Some r else cache_match url c)"
proof -
  have "map_of (filter (\<lambda>e. fst e \<noteq> u) c) k = (if k = u then None else map_of c k)" for k
    by (induction c) auto
  then show ?thesis
    by (auto simp: cache_match_def cache_put_def map_add_def split: option.splits)
qed

lemma map_of_partition_put:
  "map_of (partition_put n u r cs) name =
     (if name = n then map_option (cache_put u r) (map_of cs name) else map_of cs name)"
  unfolding partition_put_def by (induction cs) auto

text \<open>A response with status 200 that is not of type \<open>error\<close> is stored under the URL of its
  request, in the partition named, which is created when missing.\<close>

lemma cacheSuccessResponse_writes:
  assumes "status r = 200" and "rtype r \<noteq> ''error''"
  shows "partition_match cacheName url (snd (cacheSuccessResponse cacheName req (Some r) cs))
           = (if url = request_url req then Some r else partition_match cacheName url cs)"
proof -
  have "map_of (caches_open cacheName cs) cacheName \<noteq> None"
  proof (cases "cacheName \<in> set (caches_keys cs)")
    case True
    then have "map_of cs cacheName \<noteq> None"
      by (simp add: caches_keys_def map_of_eq_None_iff)
    with True show ?thesis by (simp add: map_of_caches_open)
  next
    case False
    then show ?thesis by (simp add: map_of_caches_open)
  qed
  then obtain c where c: "map_of (caches_open cacheName cs) cacheName = Some c"
    by blast
  have "partition_match cacheName url (caches_open cacheName cs) = cache_match url c"
    by (simp add: partition_match_def c)
  then have old: "partition_match cacheName url cs = cache_match url c"
    by (simp add: partition_match_caches_open)
  show ?thesis
    using assms
    by (simp add: cacheSuccessResponse_def partition_match_def map_of_partition_put c
        cache_match_cache_put old [unfolded partition_match_def])
qed

text \<open>
  Claim C5. Whenever one of the three strategies changes what some partition holds for
  some URL, the response it captured from the network has a successful status (200, so
  within 200 to 299) and is not of type \<open>error\<close>. A captured response whose status is not
  200 or whose type is \<open>error\<close> (in particular every response without a successful status)
  is handed back by \<open>cacheSuccessResponse\<close> with the storage as it was, and after each of
  the three strategies every partition holds, for every URL, exactly the entry it held
  before. That response is what network-first and the navigation handler answer with,
  and what stale-while-revalidate answers with when the static partition has no copy of
  the request.
\<close>

theorem failed_check_responses_are_returned_unwritten:
  "(partition_match p url (snd (staleWhileRevalidate (Resolved r) req cs)) \<noteq> partition_match p url cs
      \<or> partition_match p url (snd (networkFirst loc (Resolved r) req cs)) \<noteq> partition_match p url cs
      \<or> partition_match p url (snd (navigationHandler loc (Resolved r) req cs)) \<noteq> partition_match p url cs
     \<longrightarrow> 200 \<le> status r \<and> status r \<le> 299 \<and> rtype r \<noteq> ''error'')
   \<and> (status r \<noteq> 200 \<or> rtype r = ''error'' \<longrightarrow>
         cacheSuccessResponse cacheName req (Some r) cs = (Some r, cs)
       \<and> partition_match p url (snd (staleWhileRevalidate (Resolved r) req cs))
           = partition_match p url cs
       \<and> partition_match p url (snd (networkFirst loc (Resolved r) req cs))
           = partition_match p url cs
       \<and> partition_match p url (snd (navigationHandler loc (Resolved r) req cs))
           = partition_match p url cs
       \<and> fst (networkFirst loc (Resolved r) req cs) = Some r
       \<and> fst (navigationHandler loc (Resolved r) req cs) = r
       \<and> (partition_match STATIC_CACHE (request_url req) cs = None \<longrightarrow>
            fst (staleWhileRevalidate (Resolved r) req cs) = r))"
proof (cases "status r \<noteq> 200 \<or> rtype r = ''error''")
  case True
  then have c: "cacheSuccessResponse cacheName req (Some r) cs = (Some r, cs)" for cacheName cs
    by (auto simp: cacheSuccessResponse_def)
  show ?thesis
    using True
    by (simp add: c staleWhileRevalidate_def networkFirst_def navigationHandler_def Let_def
        partition_match_caches_open split: option.splits)
next
  case False
  then show ?thesis by simp
qed

theorem failed_check_responses_are_returned_unwritten_witness:
  "status not_found_response = 404
   \<and> partition_match STATIC_CACHE (request_url style_request) shop_caches = None
   \<and> cacheSuccessResponse STATIC_CACHE style_request (Some not_found_response) shop_caches
        = (Some not_found_response, shop_caches)
   \<and> partition_match STATIC_CACHE (request_url style_request)
        (snd (staleWhileRevalidate (Resolved not_found_response) style_request shop_caches)) = None
   \<and> partition_match STATIC_CACHE (request_url style_request)
        (snd (networkFirst ''https://shop'' (Resolved not_found_response) style_request shop_caches)) = None
   \<and> partition_match STATIC_CACHE (request_url style_request)
        (snd (navigationHandler ''https://shop'' (Resolved not_found_response) style_request shop_caches)) = None
   \<and> fst (networkFirst ''https://shop'' (Resolved not_found_response) style_request shop_caches)
        = Some not_found_response
   \<and> fst (navigationHandler ''https://shop'' (Resolved not_found_response) style_request shop_caches)
        = not_found_response
   \<and> fst (staleWhileRevalidate (Resolved not_found_response) style_request shop_caches)
        = not_found_response
   \<and> partition_match STATIC_CACHE (request_url style_request)
        (snd (staleWhileRevalidate (Resolved (page_response ''css'')) style_request shop_caches))
        = Some (page_response ''css'')
   \<and> status (page_response ''css'') = 200"
proof -
  have n: "partition_match STATIC_CACHE (request_url style_request) shop_caches = None"
    by (simp add: partition_match_def fixtures style_request_def STATIC_CACHE_def SW_VERSION_def)
  have w: "partition_match STATIC_CACHE (request_url style_request)
        (snd (staleWhileRevalidate (Resolved (page_response ''css'')) style_request shop_caches))
        = Some (page_response ''css'')"
    by (simp add: staleWhileRevalidate_def cacheSuccessResponse_def partition_match_def
        partition_put_def cache_put_def caches_open_def caches_keys_def fixtures style_request_def
        STATIC_CACHE_def SW_VERSION_def Let_def)
  show ?thesis
    using n w
      failed_check_responses_are_returned_unwritten
        [of STATIC_CACHE "request_url style_request" not_found_response style_request shop_caches
          "''https://shop''" STATIC_CACHE]
      failed_check_responses_are_returned_unwritten
        [of STATIC_CACHE "request_url style_request" "page_response ''css''" style_request shop_caches
          "''https://shop''" STATIC_CACHE]
    by (simp add: not_found_response_def page_response_def)
qed

section \<open>HTML escaping\<close>

lemma replace_all_append:
  "replace_all c rep (xs @ ys) = replace_all c rep xs @ replace_all c rep ys"
  by (simp add: replace_all_def)

lemma replace_all_concat_map:
  "replace_all c rep (concat (map f s)) = concat (map (\<lambda>x. replace_all c rep (f x)) s)"
  by (induction s) (simp_all add: replace_all_append, simp add: replace_all_def)

lemma escapeHtml_charwise: "escapeHtml (Some s) = concat (map escape_char s)"
proof -
  have one: "replace_all (CHR 0x27) ''&#39;''
       (replace_all (CHR 0x22) ''&quot;''
          (replace_all (CHR ''>'') ''&gt;''
             (replace_all (CHR ''<'') ''&lt;''
                (replace_all (CHR ''&'') ''&amp;'' [c])))) = escape_char c" for c
    by (simp add: replace_all_def escape_char_def)
  have "escapeHtml (Some s) =
    replace_all (CHR 0x27) ''&#39;''
       (replace_all (CHR 0x22) ''&quot;''
          (replace_all (CHR ''>'') ''&gt;''
             (replace_all (CHR ''<'') ''&lt;''
                (concat (map (\<lambda>x. replace_all (CHR ''&'') ''&amp;'' [x]) s)))))"
  proof -
    have "replace_all (CHR ''&'') ''&amp;'' s
            = concat (map (\<lambda>x. replace_all (CHR ''&'') ''&amp;'' [x]) s)"
      by (simp add: replace_all_def)
    then show ?thesis by (simp add: escapeHtml_def)
  qed
  also have "\<dots> = concat (map (\<lambda>c. replace_all (CHR 0x27) ''&#39;''
       (replace_all (CHR 0x22) ''&quot;''
          (replace_all (CHR ''>'') ''&gt;''
             (replace_all (CHR ''<'') ''&lt;''
                (replace_all (CHR ''&'') ''&amp;'' [c]))))) s)"
    by (simp only: replace_all_concat_map)
  finally show ?thesis by (simp only: one)
qed

lemma set_escape_char:
  "CHR ''<'' \<notin> set (escape_char c) \<and> CHR ''>'' \<notin> set (escape_char c)
   \<and> CHR 0x22 \<notin> set (escape_char c) \<and> CHR 0x27 \<notin> set (escape_char c)"
  by (simp add: escape_char_def)

lemma ampersands_escape_char_append:
  "ampersands_start_entities rest \<Longrightarrow> ampersands_start_entities (escape_char c @ rest)"
  by (simp add: escape_char_def html_entities_def)

lemma ampersands_concat_escape: "ampersands_start_entities (concat (map escape_char s))"
  by (induction s) (simp_all add: ampersands_escape_char_append)

lemma ampersands_start_entities_nth:
  "ampersands_start_entities xs \<Longrightarrow> i < length xs \<Longrightarrow> xs ! i = CHR ''&''
     \<Longrightarrow> \<exists>e \<in> set html_entities. prefix e (drop i xs)"
proof (induction xs arbitrary: i)
  case Nil
  then show ?case by simp
next
  case (Cons c cs)
  show ?case
  proof (cases i)
    case 0
    with Cons.prems show ?thesis by (simp add: list_ex_iff)
  next
    case (Suc j)
    with Cons show ?thesis by simp
  qed
qed

text \<open>
  Claim C10. For every input, the string returned by \<open>escapeHtml\<close> contains none of the
  characters \<open><\<close>, \<open>>\<close>, double quote and single quote, and at every position where it
  holds an ampersand one of the entities \<open>&amp;\<close>, \<open>&lt;\<close>, \<open>&gt;\<close>, \<open>&quot;\<close>, \<open>&#39;\<close>
  starts.
\<close>

theorem escapeHtml_output_is_inert:
  "CHR ''<'' \<notin> set (escapeHtml v) \<and> CHR ''>'' \<notin> set (escapeHtml v)
   \<and> CHR 0x22 \<notin> set (escapeHtml v) \<and> CHR 0x27 \<notin> set (escapeHtml v)
   \<and> (\<forall>i < length (escapeHtml v). escapeHtml v ! i = CHR ''&'' \<longrightarrow>
         (\<exists>e \<in> set html_entities. prefix e (drop i (escapeHtml v))))"
proof (cases v)
  case None
  then show ?thesis by (simp add: escapeHtml_def replace_all_def)
next
  case (Some s)
  have amp: "ampersands_start_entities (escapeHtml v)"
    by (simp add: Some escapeHtml_charwise ampersands_concat_escape)
  have chars: "CHR ''<'' \<notin> set (escapeHtml v) \<and> CHR ''>'' \<notin> set (escapeHtml v)
   \<and> CHR 0x22 \<notin> set (escapeHtml v) \<and> CHR 0x27 \<notin> set (escapeHtml v)"
    using set_escape_char by (simp add: Some escapeHtml_charwise)
  show ?thesis using chars ampersands_start_entities_nth [OF amp] by blast
qed

theorem escapeHtml_output_is_inert_witness:
  \<open>escapeHtml (Some ''<a href="x">Tom & Jerry's &amp;</a>'')
     = ''&lt;a href=&quot;x&quot;&gt;Tom &amp; Jerry&#39;s &amp;amp;&lt;/a&gt;''
   \<and> 0 < length (escapeHtml (Some ''<a href="x">Tom & Jerry's &amp;</a>''))
   \<and> escapeHtml (Some ''<a href="x">Tom & Jerry's &amp;</a>'') ! 0 = CHR ''&''
   \<and> prefix ''&lt;'' (drop 0 (escapeHtml (Some ''<a href="x">Tom & Jerry's &amp;</a>'')))
   \<and> CHR ''<'' \<notin> set (escapeHtml (Some ''<a href="x">Tom & Jerry's &amp;</a>''))\<close>
proof -
  have e: \<open>escapeHtml (Some ''<a href="x">Tom & Jerry's &amp;</a>'')
     = ''&lt;a href=&quot;x&quot;&gt;Tom &amp; Jerry&#39;s &amp;amp;&lt;/a&gt;''\<close>
    by (simp add: escapeHtml_def replace_all_def)
  show ?thesis
    using escapeHtml_output_is_inert [of \<open>Some ''<a href="x">Tom & Jerry's &amp;</a>''\<close>]
    unfolding e by simp
qed

section \<open>Catalog loading\<close>

lemmas pos_effects =
  showNotification_def setProductsLoadStatus_def showLoading_def renderProducts_def
  persistProductsToCache_def

lemma loadProducts_failure_reset:
  "loadProducts_failure True s =
     (case stored_products s of
        Some cached \<Rightarrow>
          s\<lparr>products := cached, catalogTotalCount := int (length cached), hasMoreProducts := False,
            grid := cached, loadStatus := (''Loaded cached products (offline)'', ''warning'')\<rparr>
      | None \<Rightarrow>
          s\<lparr>notifications := notifications s @ [(''Failed to load products'', ''error'')],
            loadStatus := (''Unable to load products'', ''error'')\<rparr>)"
  by (simp add: loadProducts_failure_def pos_effects split: option.splits)

lemma loadProducts_resume_failed:
  "load_failed reply \<Longrightarrow>
   loadProducts_resume reset silent reply s =
     (let s2 = (loadProducts_failure reset s)\<lparr>isFetchingProducts := False\<rparr>
      in if \<not> silent then showLoading False s2 else s2)"
  by (auto simp: load_failed_def loadProducts_resume_def Let_def split: outcome.splits option.splits)

lemma catalog_params_cong:
  "nextOffset s' = nextOffset s \<Longrightarrow> productPageSize s' = productPageSize s
   \<Longrightarrow> currentQuery s' = currentQuery s \<Longrightarrow> currentCategory s' = currentCategory s
   \<Longrightarrow> catalog_params s' = catalog_params s"
  by (simp add: catalog_params_def)

lemma loadProducts_begin_incremental:
  "\<not> isFetchingProducts s \<Longrightarrow> hasMoreProducts s \<Longrightarrow>
   fst (loadProducts_begin False True s) = Some (GET ''/api/products/lazy'' (catalog_params s))"
  by (simp add: loadProducts_begin_def Let_def pos_effects catalog_params_def)

lemma loadProducts_more_step:
  assumes "\<not> isFetchingProducts s" and "hasMoreProducts s"
  shows "nextOffset (loadProducts False True (page_reply xs t hm) s) = nextOffset s + length xs"
    and "products (loadProducts False True (page_reply xs t hm) s) = products s @ xs"
    and "hasMoreProducts (loadProducts False True (page_reply xs t hm) s) = hm"
    and "\<not> isFetchingProducts (loadProducts False True (page_reply xs t hm) s)"
    and "productPageSize (loadProducts False True (page_reply xs t hm) s) = productPageSize s"
    and "currentQuery (loadProducts False True (page_reply xs t hm) s) = currentQuery s"
    and "currentCategory (loadProducts False True (page_reply xs t hm) s) = currentCategory s"
    and "fetched (loadProducts False True (page_reply xs t hm) s)
           = fetched s @ [GET ''/api/products/lazy'' (catalog_params s)]"
  using assms
  by (simp_all add: loadProducts_def loadProducts_begin_def loadProducts_resume_def
      loadProducts_success_def page_reply_def Let_def pos_effects catalog_params_def)

lemma load_more_run:
  assumes "\<not> isFetchingProducts s" and "hasMoreProducts s"
    and "\<forall>p \<in> set (butlast pages). snd (snd p)"
  shows "nextOffset (load_more (page_replies pages) s)
           = nextOffset s + sum_list (map (\<lambda>p. length (fst p)) pages)
       \<and> products (load_more (page_replies pages) s) = products s @ concat (map fst pages)
       \<and> hasMoreProducts (load_more (page_replies pages) s)
           = (if pages = [] then hasMoreProducts s else snd (snd (last pages)))
       \<and> \<not> isFetchingProducts (load_more (page_replies pages) s)
       \<and> productPageSize (load_more (page_replies pages) s) = productPageSize s
       \<and> currentQuery (load_more (page_replies pages) s) = currentQuery s
       \<and> currentCategory (load_more (page_replies pages) s) = currentCategory s
       \<and> length (fetched (load_more (page_replies pages) s)) = length (fetched s) + length pages"
  using assms
proof (induction pages arbitrary: s)
  case Nil
  then show ?case by (simp add: load_more_def page_replies_def)
next
  case (Cons p ps)
  let ?s1 = "loadProducts False True (page_reply (fst p) (fst (snd p)) (snd (snd p))) s"
  note step = loadProducts_more_step [OF Cons.prems(1) Cons.prems(2),
      of "fst p" "fst (snd p)" "snd (snd p)"]
  have unfold: "load_more (page_replies (p # ps)) s = load_more (page_replies ps) ?s1"
    by (simp add: load_more_def page_replies_def)
  show ?case
  proof (cases "ps = []")
    case True
    then show ?thesis
      using step by (simp add: load_more_def page_replies_def)
  next
    case False
    with Cons.prems(3) have more: "hasMoreProducts ?s1" and rest: "\<forall>p \<in> set (butlast ps). snd (snd p)"
      using step(3) by auto
    from Cons.IH [OF step(4) more rest] show ?thesis
      unfolding unfold using step False by simp
  qed
qed

text \<open>
  Claim C2. Starting idle with more pages announced, after any run of successful
  incremental loads, each of which was announced by the \<open>has_more\<close> of the page before it,
  \<open>nextOffset\<close> has advanced by the sum of the numbers of items the responses carried,
  whatever the page size requested, and the product list has grown by the concatenation
  of their items; one request was issued per load; and when the last page announces
  more, the next incremental load requests the offset so reached with the page size as
  its limit. From a fresh cursor (offset 0, no products) the offset is that sum and the
  list that concatenation.
\<close>

theorem nextOffset_counts_items_received:
  assumes "\<not> isFetchingProducts s" and "hasMoreProducts s"
    and "\<forall>p \<in> set (butlast pages). snd (snd p)"
  shows "nextOffset (load_more (page_replies pages) s)
           = nextOffset s + sum_list (map (\<lambda>p. length (fst p)) pages)
       \<and> products (load_more (page_replies pages) s) = products s @ concat (map fst pages)
       \<and> length (fetched (load_more (page_replies pages) s)) = length (fetched s) + length pages
       \<and> (hasMoreProducts (load_more (page_replies pages) s) \<longrightarrow>
            fst (loadProducts_begin False True (load_more (page_replies pages) s))
              = Some (GET ''/api/products/lazy''
                  (catalog_params
                     (s\<lparr>nextOffset := nextOffset s + sum_list (map (\<lambda>p. length (fst p)) pages)\<rparr>))))"
proof -
  note run = load_more_run [OF assms]
  have "catalog_params (load_more (page_replies pages) s)
      = catalog_params (s\<lparr>nextOffset := nextOffset s + sum_list (map (\<lambda>p. length (fst p)) pages)\<rparr>)"
    by (rule catalog_params_cong) (simp_all add: run)
  moreover have "hasMoreProducts (load_more (page_replies pages) s) \<longrightarrow>
      fst (loadProducts_begin False True (load_more (page_replies pages) s))
        = Some (GET ''/api/products/lazy'' (catalog_params (load_more (page_replies pages) s)))"
    using run by (simp add: loadProducts_begin_incremental)
  ultimately show ?thesis
    using run by simp
qed

text \<open>
  Claim C3. While the in-flight flag is set, a call of \<open>loadProducts\<close>, whatever its
  arguments, returns at the first guard: no request is issued and the state (which
  includes the log of requests) is exactly what it was. The flag is set whenever a call
  has issued its request, and cleared only when that request has settled.
\<close>

theorem in_flight_loads_are_dropped:
  "(isFetchingProducts s \<longrightarrow>
       loadProducts_begin reset silent s = (None, s) \<and> loadProducts reset silent reply s = s)
   \<and> (loadProducts_begin reset silent s = (Some request, s') \<longrightarrow>
         isFetchingProducts s' \<and> fetched s' = fetched s @ [request])
   \<and> \<not> isFetchingProducts (loadProducts_resume reset silent reply s)"
  by (auto simp: loadProducts_begin_def loadProducts_def loadProducts_resume_def Let_def pos_effects
      split: if_splits)

text \<open>
  Claim C9. When a reset load fails (the fetch rejects, the body does not decode, the
  status is not a success, or \<open>items\<close> is not an array) and local storage holds a product
  snapshot, the snapshot becomes the product list and the grid, the total count is its
  length and \<open>hasMore\<close> is false; when local storage holds none, an error notification and
  the error status are shown and the product list stays empty.
\<close>

theorem failed_reset_load_rehydrates_from_snapshot:
  assumes "\<not> isFetchingProducts s" and "load_failed reply"
  shows "(stored_products s = Some snapshot \<longrightarrow>
            products (loadProducts True silent reply s) = snapshot
          \<and> catalogTotalCount (loadProducts True silent reply s) = int (length snapshot)
          \<and> \<not> hasMoreProducts (loadProducts True silent reply s)
          \<and> grid (loadProducts True silent reply s) = snapshot
          \<and> loadStatus (loadProducts True silent reply s)
               = (''Loaded cached products (offline)'', ''warning'')
          \<and> notifications (loadProducts True silent reply s) = notifications s)
       \<and> (stored_products s = None \<longrightarrow>
            loadStatus (loadProducts True silent reply s) = (''Unable to load products'', ''error'')
          \<and> notifications (loadProducts True silent reply s)
               = notifications s @ [(''Failed to load products'', ''error'')]
          \<and> products (loadProducts True silent reply s) = []
          \<and> grid (loadProducts True silent reply s) = [])
       \<and> \<not> isFetchingProducts (loadProducts True silent reply s)"
  using assms
  by (simp add: loadProducts_def loadProducts_begin_def loadProducts_resume_failed
      loadProducts_failure_reset Let_def pos_effects)

lemmas catalog_fixtures =
  phone_def phone_with_snapshot_def phone_loading_def new_POSSystem_def getProductPageSize_def
  first_page_def second_page_def last_page_def two_pages_def three_pages_def sample_product_def

lemmas catalog_code =
  load_more_def page_replies_def page_reply_def loadProducts_def loadProducts_begin_def
  loadProducts_resume_def loadProducts_success_def loadProducts_failure_def catalog_params_def
  js_trim_def decimal.simps digit_char_def string_of_int_def Let_def

text \<open>The scenario: a page size of 8; two pages of 8 items lead to the requests with offsets
  0 and 8, to 16 products and to \<open>nextOffset = 16\<close>, and the next request asks for offset
  16. A last page of 3 items leaves the offset at 19, not at 24.\<close>

theorem nextOffset_counts_items_received_witness:
  "nextOffset (load_more (page_replies two_pages) phone) = 16
   \<and> length (products (load_more (page_replies two_pages) phone)) = 16
   \<and> products (load_more (page_replies two_pages) phone) = first_page @ second_page
   \<and> fetched (load_more (page_replies two_pages) phone)
        = [GET ''/api/products/lazy'' [(''offset'', ''0''), (''limit'', ''8'')],
           GET ''/api/products/lazy'' [(''offset'', ''8''), (''limit'', ''8'')]]
   \<and> fst (loadProducts_begin False True (load_more (page_replies two_pages) phone))
        = Some (GET ''/api/products/lazy'' [(''offset'', ''16''), (''limit'', ''8'')])
   \<and> nextOffset (load_more (page_replies three_pages) phone) = 19
   \<and> products (load_more (page_replies three_pages) phone) = first_page @ second_page @ last_page
   \<and> length (fetched (load_more (page_replies three_pages) phone)) = 3"
proof -
  have idle: "\<not> isFetchingProducts phone" and more: "hasMoreProducts phone"
    by (simp_all add: catalog_fixtures)
  have pages2: "\<forall>p \<in> set (butlast two_pages). snd (snd p)"
    and pages3: "\<forall>p \<in> set (butlast three_pages). snd (snd p)"
    by (simp_all add: two_pages_def three_pages_def)
  have log: "fetched (load_more (page_replies two_pages) phone)
        = [GET ''/api/products/lazy'' [(''offset'', ''0''), (''limit'', ''8'')],
           GET ''/api/products/lazy'' [(''offset'', ''8''), (''limit'', ''8'')]]"
    by (simp add: catalog_code catalog_fixtures pos_effects)
  have more_after: "hasMoreProducts (load_more (page_replies two_pages) phone)"
    by (simp add: catalog_code catalog_fixtures pos_effects)
  have params: "catalog_params (phone\<lparr>nextOffset := 16\<rparr>) = [(''offset'', ''16''), (''limit'', ''8'')]"
    by (simp add: catalog_code catalog_fixtures)
  have len: "sum_list (map (\<lambda>p. length (fst p)) two_pages) = 16"
    "sum_list (map (\<lambda>p. length (fst p)) three_pages) = 19"
    "concat (map fst two_pages) = first_page @ second_page"
    "concat (map fst three_pages) = first_page @ second_page @ last_page"
    "length first_page = 8" "length second_page = 8"
    "length two_pages = 2" "length three_pages = 3"
    "nextOffset phone = 0" "products phone = []" "fetched phone = []"
    by (simp_all add: catalog_fixtures)
  show ?thesis
    using nextOffset_counts_items_received [OF idle more pages2]
      nextOffset_counts_items_received [OF idle more pages3] log more_after params
    by (simp add: len)
qed

theorem in_flight_loads_are_dropped_witness:
  "isFetchingProducts phone_loading
   \<and> loadProducts_begin True False phone = (Some (GET ''/api/products/lazy'' [(''offset'', ''0''), (''limit'', ''8'')]), phone_loading)
   \<and> fetched phone_loading = [GET ''/api/products/lazy'' [(''offset'', ''0''), (''limit'', ''8'')]]
   \<and> loadProducts_begin False True phone_loading = (None, phone_loading)
   \<and> loadProducts False True (page_reply second_page None True) phone_loading = phone_loading"
proof -
  have b: "loadProducts_begin True False phone
      = (Some (GET ''/api/products/lazy'' [(''offset'', ''0''), (''limit'', ''8'')]), phone_loading)"
    by (simp add: phone_loading_def catalog_code phone_def new_POSSystem_def getProductPageSize_def
        pos_effects)
  show ?thesis
    using b in_flight_loads_are_dropped [of phone True False _
        "GET ''/api/products/lazy'' [(''offset'', ''0''), (''limit'', ''8'')]" phone_loading]
      in_flight_loads_are_dropped [of phone_loading False True "page_reply second_page None True"]
    by (simp add: phone_def new_POSSystem_def)
qed

theorem failed_reset_load_rehydrates_from_snapshot_witness:
  "load_failed Rejected
   \<and> stored_products phone_with_snapshot = Some first_page
   \<and> products (loadProducts True False Rejected phone_with_snapshot) = first_page
   \<and> catalogTotalCount (loadProducts True False Rejected phone_with_snapshot) = 8
   \<and> hasMoreProducts (loadProducts True False Rejected phone_with_snapshot) = False
   \<and> stored_products phone = None
   \<and> load_failed (Resolved \<lparr>ok = False, json = Some \<lparr>items = Some first_page, total = None, has_more = True\<rparr>\<rparr>)
   \<and> loadStatus (loadProducts True False
         (Resolved \<lparr>ok = False, json = Some \<lparr>items = Some first_page, total = None, has_more = True\<rparr>\<rparr>) phone)
        = (''Unable to load products'', ''error'')
   \<and> notifications (loadProducts True False
         (Resolved \<lparr>ok = False, json = Some \<lparr>items = Some first_page, total = None, has_more = True\<rparr>\<rparr>) phone)
        = [(''Failed to load products'', ''error'')]"
proof -
  have f1: "load_failed Rejected"
    and f2: "load_failed (Resolved \<lparr>ok = False, json = Some \<lparr>items = Some first_page, total = None, has_more = True\<rparr>\<rparr>)"
    by (simp_all add: load_failed_def)
  have i1: "\<not> isFetchingProducts phone_with_snapshot" and i2: "\<not> isFetchingProducts phone"
    by (simp_all add: catalog_fixtures)
  have s1: "stored_products phone_with_snapshot = Some first_page" and s2: "stored_products phone = None"
    and n: "notifications phone = []" and l: "int (length first_page) = 8"
    by (simp_all add: catalog_fixtures)
  show ?thesis
    using f1 f2 s1 s2
      failed_reset_load_rehydrates_from_snapshot [OF i1 f1, of first_page False]
      failed_reset_load_rehydrates_from_snapshot [OF i2 f2, of _ False]
    by (simp add: n l)
qed

section \<open>Cart reconciliation\<close>

lemmas cart_code =
  addToCart_def removeFromCart_def updateCartQuantity_def clearCart_def loadCart_def
  saveCartToStorage_def showNotification_def success_reply_def cart_reply_of_def Let_def

text \<open>
  Claim C8, as amended. When the reply to an add, update or remove reports success: with
  a cart array in the reply, that array becomes the cart and only the mutation request
  has been issued; without one, the cart is fetched anew from \<open>/api/cart\<close> and a successful
  reply to that becomes the cart. When the reply to a clear reports success, the cart
  becomes the array of the reply, or the empty cart when there is none, and only the
  clear request has been issued. In every one of these cases local storage then holds
  the resulting cart.
\<close>

theorem successful_mutation_adopts_or_refetches:
  "cart (addToCart productId qty (success_reply (Some c) msg) cart_reply s) = c
   \<and> stored_cart (addToCart productId qty (success_reply (Some c) msg) cart_reply s) = Some c
   \<and> length (fetched (addToCart productId qty (success_reply (Some c) msg) cart_reply s))
        = length (fetched s) + 1
   \<and> cart (addToCart productId qty (success_reply None msg) (cart_reply_of c') s) = c'
   \<and> stored_cart (addToCart productId qty (success_reply None msg) (cart_reply_of c') s) = Some c'
   \<and> fetched (addToCart productId qty (success_reply None msg) cart_reply s)
        = fetched s @ [POST ''/api/cart/add'' [(''product_id'', Str productId), (''quantity'', Num qty)],
                       GET ''/api/cart'' []]
   \<and> stored_cart (addToCart productId qty (success_reply None msg) cart_reply s)
        = Some (cart (addToCart productId qty (success_reply None msg) cart_reply s))
   \<and> cart (removeFromCart productId (success_reply (Some c) msg) cart_reply s) = c
   \<and> stored_cart (removeFromCart productId (success_reply (Some c) msg) cart_reply s) = Some c
   \<and> length (fetched (removeFromCart productId (success_reply (Some c) msg) cart_reply s))
        = length (fetched s) + 1
   \<and> cart (removeFromCart productId (success_reply None msg) (cart_reply_of c') s) = c'
   \<and> stored_cart (removeFromCart productId (success_reply None msg) (cart_reply_of c') s) = Some c'
   \<and> fetched (removeFromCart productId (success_reply None msg) cart_reply s)
        = fetched s @ [POST ''/api/cart/remove'' [(''product_id'', Str productId)],
                       GET ''/api/cart'' []]
   \<and> stored_cart (removeFromCart productId (success_reply None msg) cart_reply s)
        = Some (cart (removeFromCart productId (success_reply None msg) cart_reply s))
   \<and> cart (updateCartQuantity productId qty (success_reply (Some c) msg) cart_reply s) = c
   \<and> stored_cart (updateCartQuantity productId qty (success_reply (Some c) msg) cart_reply s) = Some c
   \<and> length (fetched (updateCartQuantity productId qty (success_reply (Some c) msg) cart_reply s))
        = length (fetched s) + 1
   \<and> cart (updateCartQuantity productId qty (success_reply None msg) (cart_reply_of c') s) = c'
   \<and> stored_cart (updateCartQuantity productId qty (success_reply None msg) (cart_reply_of c') s) = Some c'
   \<and> length (fetched (updateCartQuantity productId qty (success_reply None msg) cart_reply s))
        = length (fetched s) + 2
   \<and> last (fetched (updateCartQuantity productId qty (success_reply None msg) cart_reply s))
        = GET ''/api/cart'' []
   \<and> stored_cart (updateCartQuantity productId qty (success_reply None msg) cart_reply s)
        = Some (cart (updateCartQuantity productId qty (success_reply None msg) cart_reply s))
   \<and> cart (clearCart (success_reply (Some c) msg) s) = c
   \<and> stored_cart (clearCart (success_reply (Some c) msg) s) = Some c
   \<and> cart (clearCart (success_reply None msg) s) = []
   \<and> stored_cart (clearCart (success_reply None msg) s) = Some []
   \<and> fetched (clearCart (success_reply cleared msg) s) = fetched s @ [POST ''/api/cart/clear'' []]"
  by (simp add: cart_code split: outcome.splits option.splits)

text \<open>
  Claim C8 as stated fails for a clear: a successful reply that carries no cart array
  empties the cart without another request, here although the server's cart, had it
  been fetched, still holds a line.
\<close>

theorem clear_without_cart_does_not_refetch_counterexample:
  "fetched (clearCart (success_reply None None) (phone\<lparr>cart := [serum_line 2]\<rparr>))
     = [POST ''/api/cart/clear'' []]
   \<and> cart (clearCart (success_reply None None) (phone\<lparr>cart := [serum_line 2]\<rparr>)) = []
   \<and> fetched (removeFromCart ''P02'' (success_reply None None) (cart_reply_of [serum_line 2])
               (phone\<lparr>cart := [serum_line 2]\<rparr>))
     = [POST ''/api/cart/remove'' [(''product_id'', Str ''P02'')], GET ''/api/cart'' []]"
  by (simp add: cart_code phone_def new_POSSystem_def)

theorem successful_mutation_adopts_or_refetches_witness:
  "cart (addToCart ''P01'' 2 (success_reply (Some [serum_line 2]) None) Rejected phone) = [serum_line 2]
   \<and> stored_cart (addToCart ''P01'' 2 (success_reply (Some [serum_line 2]) None) Rejected phone)
        = Some [serum_line 2]
   \<and> cart (addToCart ''P01'' 2 (success_reply None None) (cart_reply_of [serum_line 3]) phone)
        = [serum_line 3]
   \<and> fetched (addToCart ''P01'' 2 (success_reply None None) (cart_reply_of [serum_line 3]) phone)
        = [POST ''/api/cart/add'' [(''product_id'', Str ''P01''), (''quantity'', Num 2)],
           GET ''/api/cart'' []]
   \<and> stored_cart (addToCart ''P01'' 2 (success_reply None None) (cart_reply_of [serum_line 3]) phone)
        = Some [serum_line 3]
   \<and> cart (clearCart (success_reply (Some []) None) phone) = []"
  using successful_mutation_adopts_or_refetches
    [of "''P01''" 2 "[serum_line 2]" None Rejected phone "[serum_line 3]" "Some []"]
    successful_mutation_adopts_or_refetches
    [of "''P01''" 2 "[]" None "cart_reply_of [serum_line 3]" phone "[serum_line 3]" "Some []"]
  by (simp add: phone_def new_POSSystem_def)

section \<open>Double arithmetic\<close>


lemma pow2_pos: "0 < pow2 k"
  by (simp add: pow2_def)





lemma round_half_even_near: "\<bar>q - rat_of_int (round_half_even q)\<bar> \<le> 1 / 2"
proof -
  have "rat_of_int \<lfloor>q\<rfloor> \<le> q" "q < rat_of_int \<lfloor>q\<rfloor> + 1" by linarith+
  then show ?thesis
    by (auto simp: round_half_even_def Let_def abs_if; linarith)
qed



lemma round_double_near:
  assumes "round_double x = Finite y"
  shows "\<bar>y - x\<bar> \<le> pow2 (max (binary_exponent \<bar>x\<bar>) (- 1022) - 52) / 2"
proof (cases "x = 0")
  case True
  with assms have "y = 0" by (simp add: round_double_def)
  with True show ?thesis using pow2_pos [of "max (binary_exponent \<bar>x\<bar>) (- 1022) - 52"] by simp
next
  case False
  define u where "u = pow2 (max (binary_exponent \<bar>x\<bar>) (- 1022) - 52)"
  have u: "0 < u" by (simp add: u_def pow2_pos)
  from assms False have y: "y = rat_of_int (round_half_even (x / u)) * u"
    by (simp add: round_double_def Let_def u_def split: if_splits)
  have "\<bar>x / u - rat_of_int (round_half_even (x / u))\<bar> \<le> 1 / 2"
    by (rule round_half_even_near)
  then have "\<bar>x / u - rat_of_int (round_half_even (x / u))\<bar> * u \<le> 1 / 2 * u"
    using u by (intro mult_right_mono) simp_all
  moreover have "\<bar>x / u - rat_of_int (round_half_even (x / u))\<bar> * u = \<bar>y - x\<bar>"
  proof -
    have "\<bar>x / u - rat_of_int (round_half_even (x / u))\<bar> * u
        = \<bar>(x / u - rat_of_int (round_half_even (x / u))) * u\<bar>"
      using u by (simp add: abs_mult)
    also have "(x / u - rat_of_int (round_half_even (x / u))) * u = x - y"
      using u by (simp add: y field_simps)
    finally show ?thesis by (simp add: abs_minus_commute)
  qed
  ultimately show ?thesis by (simp add: u_def)
qed

text \<open>Evaluation of the rounding on numerals.\<close>

lemma floor_rat_numeral_divide:
  "\<lfloor>(numeral a :: rat) / numeral b\<rfloor> = numeral a div numeral b"
  by (metis floor_divide_of_int_eq of_int_numeral)

lemma floor_rat_neg_numeral_divide:
  "\<lfloor>- (numeral a :: rat) / numeral b\<rfloor> = - numeral a div numeral b"
  by (metis floor_divide_of_int_eq of_int_numeral of_int_minus)

lemma ceiling_rat_numeral_divide:
  "\<lceil>(numeral a :: rat) / numeral b\<rceil> = - (- numeral a div numeral b)"
  by (metis ceiling_def floor_divide_of_int_eq minus_divide_left of_int_minus of_int_numeral)

lemmas double_eval =
  number_of_def round_double_def binary_exponent_def bit_length.simps pow2_def
  round_half_even_def Let_def
  floor_rat_numeral_divide floor_rat_neg_numeral_divide ceiling_rat_numeral_divide

lemmas number_ops =
  fadd_def fsub_def fneg_def fless_def fge_def Math_max_def Math_abs_def or_zero_def


section \<open>Checkout\<close>

















lemma total_1_0_0005:
  "Math_max (Finite 0)
     (fadd (fsub (Finite 1) (Finite 0)) (Finite (5764607523034235 / 1152921504606846976)))
   = Finite (1131529406376837 / 1125899906842624)"
  "toFixed2 (Finite (1131529406376837 / 1125899906842624)) = Fixed2 False 100"
  by (simp_all add: number_ops double_eval toFixed2_def)






end
